theory Spec2Isabelle
  imports Complex_Main "HOL-Library.Sublist"
begin

section \<open>Python values and exceptions\<close>

text \<open>
  The exporter (\<^verbatim>\<open>src/exporter.py\<close>) runs the \<^verbatim>\<open>speedtest\<close> binary as a child process,
  decodes its JSON output and publishes six gauges. The decoded output is an arbitrary
  JSON value, so the model carries Python's dynamic values. Floats are kept abstract
  (the type variable \<open>'f\<close>): no rounding behaviour is assumed of them.
\<close>

datatype exn = KeyError | TypeError | ValueError | AttributeError | OverflowError | OSError

datatype 'f pyval =
    PyNone
  | PyBool bool
  | PyInt int
  | PyFloat 'f
  | PyStr string
  | PyList "'f pyval list"
  | PyDict "(string \<times> 'f pyval) list"

text \<open>
  A dictionary is the list of its items; a key is looked up with \<open>map_of\<close>. The
  operations of the Python runtime and of the libraries that the exporter calls, and whose
  code is not part of the repository, are parameters: the JSON decoder, the conversions
  between strings, integers and floats, and the product of a float and an integer.
  \<open>Inl\<close> is the exception raised.
\<close>

record 'f runtime =
  json_loads :: "string \<Rightarrow> exn + 'f pyval"
  int_of_str :: "string \<Rightarrow> exn + int"
  int_of_float :: "'f \<Rightarrow> exn + int"
  float_of_int :: "int \<Rightarrow> exn + 'f"
  float_of_str :: "string \<Rightarrow> exn + 'f"
  float_mul_int :: "'f \<Rightarrow> int \<Rightarrow> 'f"

definition bind_exn :: "exn + 'a \<Rightarrow> ('a \<Rightarrow> exn + 'b) \<Rightarrow> exn + 'b" where
  "bind_exn m k = (case m of Inl e \<Rightarrow> Inl e | Inr v \<Rightarrow> k v)"

text \<open>\<^verbatim>\<open>v[k]\<close> with a string key: only a dict can be subscripted by a string.\<close>

fun py_getitem :: "'f pyval \<Rightarrow> string \<Rightarrow> exn + 'f pyval" where
  "py_getitem (PyDict kvs) k = (case map_of kvs k of None \<Rightarrow> Inl KeyError | Some v \<Rightarrow> Inr v)"
| "py_getitem _ k = Inl TypeError"

text \<open>
  \<^verbatim>\<open>k in v\<close> with a string \<open>k\<close>: key membership in a dict, element membership in a
  list, substring test in a string, TypeError on a value that is not a container.
\<close>

fun py_contains :: "string \<Rightarrow> 'f pyval \<Rightarrow> exn + bool" where
  "py_contains k (PyDict kvs) = Inr (map_of kvs k \<noteq> None)"
| "py_contains k (PyList xs) = Inr (PyStr k \<in> set xs)"
| "py_contains k (PyStr s) = Inr (sublist k s)"
| "py_contains k _ = Inl TypeError"

text \<open>\<^verbatim>\<open>v.get(k)\<close>: only a dict has the method.\<close>

fun py_get :: "'f pyval \<Rightarrow> string \<Rightarrow> exn + 'f pyval" where
  "py_get (PyDict kvs) k = Inr (case map_of kvs k of None \<Rightarrow> PyNone | Some v \<Rightarrow> v)"
| "py_get _ k = Inl AttributeError"

text \<open>The builtin \<^verbatim>\<open>int(v)\<close>.\<close>

fun py_int :: "'f runtime \<Rightarrow> 'f pyval \<Rightarrow> exn + int" where
  "py_int rt (PyBool b) = Inr (if b then 1 else 0)"
| "py_int rt (PyInt n) = Inr n"
| "py_int rt (PyFloat x) = int_of_float rt x"
| "py_int rt (PyStr s) = int_of_str rt s"
| "py_int rt _ = Inl TypeError"

text \<open>The builtin \<^verbatim>\<open>float(v)\<close>, which \<^verbatim>\<open>Gauge.set\<close> applies to its argument.\<close>

fun py_float :: "'f runtime \<Rightarrow> 'f pyval \<Rightarrow> exn + 'f" where
  "py_float rt (PyBool b) = float_of_int rt (if b then 1 else 0)"
| "py_float rt (PyInt n) = float_of_int rt n"
| "py_float rt (PyFloat x) = Inr x"
| "py_float rt (PyStr s) = float_of_str rt s"
| "py_float rt _ = Inl TypeError"

section \<open>The exporter\<close>

subsection \<open>Configuration and state\<close>

text \<open>
  The environment variables read by the exporter, and the module-level variables it
  mutates. A \<^verbatim>\<open>datetime\<close> is the number of microseconds since \<^verbatim>\<open>datetime.min\<close>;
  \<open>probe_calls\<close> records every call of \<^verbatim>\<open>subprocess.check_output\<close> with its
  command line and timeout.
\<close>

record config =
  cache_seconds :: int
  SPEEDTEST_SERVER :: "string option"
  SPEEDTEST_TIMEOUT :: "string option"

record 'f state =
  cache_until :: int
  server :: 'f
  jitter :: 'f
  ping :: 'f
  download_speed :: 'f
  upload_speed :: 'f
  up :: 'f
  shutdown_event :: bool
  probe_calls :: "(string list \<times> int) list"

text \<open>What \<^verbatim>\<open>subprocess.check_output\<close> does: the child's standard output, or an exception.\<close>

datatype probe = Completed string | CalledProcessError | TimeoutExpired | SpawnError

text \<open>
  The tuple returned by \<^verbatim>\<open>runTest\<close>. Its first component is the result of \<^verbatim>\<open>int(...)\<close>
  or the literal 0, its last component the literal 0 or 1.
\<close>

type_synonym 'f result = "int \<times> 'f pyval \<times> 'f pyval \<times> 'f pyval \<times> 'f pyval \<times> int"

definition sentinel :: "'f result" where
  "sentinel = (0, PyInt 0, PyInt 0, PyInt 0, PyInt 0, 0)"

subsection \<open>Helpers\<close>

text \<open>\<^verbatim>\<open>bytes_per_sec * 8\<close>: a number is multiplied, a string or a list is repeated.\<close>

fun bytes_to_bits :: "'f runtime \<Rightarrow> 'f pyval \<Rightarrow> exn + 'f pyval" where
  "bytes_to_bits rt (PyBool b) = Inr (PyInt ((if b then 1 else 0) * 8))"
| "bytes_to_bits rt (PyInt n) = Inr (PyInt (n * 8))"
| "bytes_to_bits rt (PyFloat x) = Inr (PyFloat (float_mul_int rt x 8))"
| "bytes_to_bits rt (PyStr s) = Inr (PyStr (concat (replicate 8 s)))"
| "bytes_to_bits rt (PyList xs) = Inr (PyList (concat (replicate 8 xs)))"
| "bytes_to_bits rt _ = Inl TypeError"

text \<open>
  \<^verbatim>\<open>bits_to_megabits\<close> multiplies by the float \<^verbatim>\<open>10**-6\<close> and rounds; the string it
  formats only goes to the log, so the model keeps whether it raises. An integer is
  converted to a float first; a string or a list cannot be multiplied by a float.
\<close>

fun bits_to_megabits :: "'f runtime \<Rightarrow> 'f pyval \<Rightarrow> exn + unit" where
  "bits_to_megabits rt (PyBool b) = Inr ()"
| "bits_to_megabits rt (PyInt n) = bind_exn (float_of_int rt n) (\<lambda>_. Inr ())"
| "bits_to_megabits rt (PyFloat x) = Inr ()"
| "bits_to_megabits rt _ = Inl TypeError"

definition is_json :: "'f runtime \<Rightarrow> string \<Rightarrow> exn + bool" where
  "is_json rt myjson =
     (if myjson = [] then Inr False
      else case json_loads rt myjson of
             Inr _ \<Rightarrow> Inr True
           | Inl ValueError \<Rightarrow> Inr False
           | Inl TypeError \<Rightarrow> Inr False
           | Inl e \<Rightarrow> Inl e)"

subsection \<open>runTest\<close>

text \<open>The tuple built when the payload's type is \<^verbatim>\<open>result\<close>, evaluated left to right.\<close>

definition result_tuple :: "'f runtime \<Rightarrow> 'f pyval \<Rightarrow> exn + 'f result" where
  "result_tuple rt data =
     bind_exn (py_getitem data ''server'') (\<lambda>srv.
     bind_exn (py_getitem srv ''id'') (\<lambda>sid.
     bind_exn (py_int rt sid) (\<lambda>r_server.
     bind_exn (py_getitem data ''ping'') (\<lambda>p1.
     bind_exn (py_getitem p1 ''jitter'') (\<lambda>r_jitter.
     bind_exn (py_getitem data ''ping'') (\<lambda>p2.
     bind_exn (py_getitem p2 ''latency'') (\<lambda>r_ping.
     bind_exn (py_getitem data ''download'') (\<lambda>dl.
     bind_exn (py_getitem dl ''bandwidth'') (\<lambda>dbw.
     bind_exn (bytes_to_bits rt dbw) (\<lambda>r_download.
     bind_exn (py_getitem data ''upload'') (\<lambda>ul.
     bind_exn (py_getitem ul ''bandwidth'') (\<lambda>ubw.
     bind_exn (bytes_to_bits rt ubw) (\<lambda>r_upload.
       Inr (r_server, r_jitter, r_ping, r_download, r_upload, 1))))))))))))))"

text \<open>The body of the \<^verbatim>\<open>try\<close> block, before its handler.\<close>

definition parse_body :: "'f runtime \<Rightarrow> string \<Rightarrow> exn + 'f result" where
  "parse_body rt output =
     bind_exn (json_loads rt output) (\<lambda>data.
     bind_exn (py_contains ''error'' data) (\<lambda>has_error.
       if has_error then bind_exn (py_getitem data ''error'') (\<lambda>_. Inr sentinel)
       else bind_exn (py_get data ''type'') (\<lambda>ty.
         if ty = PyStr ''result'' then result_tuple rt data else Inr sentinel)))"

text \<open>\<^verbatim>\<open>except (KeyError, TypeError)\<close>: every other exception leaves the function.\<close>

definition parse_output :: "'f runtime \<Rightarrow> string \<Rightarrow> exn + 'f result" where
  "parse_output rt output =
     (case parse_body rt output of
        Inl KeyError \<Rightarrow> Inr sentinel
      | Inl TypeError \<Rightarrow> Inr sentinel
      | r \<Rightarrow> r)"

definition probe_cmd :: "config \<Rightarrow> string list" where
  "probe_cmd cfg =
     [''speedtest'', ''--format=json-pretty'', ''--progress=no'',
      ''--accept-license'', ''--accept-gdpr'']
     @ (case SPEEDTEST_SERVER cfg of
          None \<Rightarrow> []
        | Some serverID \<Rightarrow> if serverID \<noteq> [] then [''--server-id='' @ serverID] else [])"

definition probe_timeout :: "'f runtime \<Rightarrow> config \<Rightarrow> exn + int" where
  "probe_timeout rt cfg =
     (case SPEEDTEST_TIMEOUT cfg of None \<Rightarrow> Inr 90 | Some t \<Rightarrow> int_of_str rt t)"

text \<open>
  \<open>outcome\<close> is what the child process does if it is started; it is consulted only after
  the shutdown flag and the timeout setting have been read.
\<close>

definition runTest ::
  "'f runtime \<Rightarrow> config \<Rightarrow> probe \<Rightarrow> 'f state \<Rightarrow> (exn + 'f result) \<times> 'f state" where
  "runTest rt cfg outcome s =
     (if shutdown_event s then (Inr sentinel, s)
      else case probe_timeout rt cfg of
        Inl e \<Rightarrow> (Inl e, s)
      | Inr timeout \<Rightarrow>
          let s' = s\<lparr>probe_calls := probe_calls s @ [(probe_cmd cfg, timeout)]\<rparr> in
          (case outcome of
             CalledProcessError \<Rightarrow> (Inr sentinel, s')
           | TimeoutExpired \<Rightarrow> (Inr sentinel, s')
           | SpawnError \<Rightarrow> (Inl OSError, s')
           | Completed output \<Rightarrow>
               (case is_json rt output of
                  Inl e \<Rightarrow> (Inl e, s')
                | Inr False \<Rightarrow> (Inr sentinel, s')
                | Inr True \<Rightarrow> (parse_output rt output, s'))))"

subsection \<open>updateResults\<close>

text \<open>
  \<^verbatim>\<open>Gauge.set(v)\<close> stores \<^verbatim>\<open>float(v)\<close>; when the conversion raises, the gauge keeps
  its value and the exception leaves the request handler.
\<close>

definition gauge_set ::
  "('f \<Rightarrow> 'f state \<Rightarrow> 'f state) \<Rightarrow> 'f runtime \<Rightarrow> 'f pyval \<Rightarrow> 'f state
     \<Rightarrow> (exn + unit) \<times> 'f state" where
  "gauge_set upd rt v s =
     (case py_float rt v of Inl e \<Rightarrow> (Inl e, s) | Inr x \<Rightarrow> (Inr (), upd x s))"

definition seq_st ::
  "('s \<Rightarrow> (exn + unit) \<times> 's) \<Rightarrow> ('s \<Rightarrow> (exn + unit) \<times> 's) \<Rightarrow> 's \<Rightarrow> (exn + unit) \<times> 's" where
  "seq_st m k s = (case m s of (Inl e, s') \<Rightarrow> (Inl e, s') | (Inr _, s') \<Rightarrow> k s')"

text \<open>The log line of a successful test formats both rates; nothing else of it is kept.\<close>

definition log_result :: "'f runtime \<Rightarrow> 'f result \<Rightarrow> 'f state \<Rightarrow> (exn + unit) \<times> 'f state" where
  "log_result rt r s =
     (case r of (r_server, r_jitter, r_ping, r_download, r_upload, r_status) \<Rightarrow>
        if r_status \<noteq> 0
        then (bind_exn (bits_to_megabits rt r_download) (\<lambda>_. bits_to_megabits rt r_upload), s)
        else (Inr (), s))"

text \<open>The six \<^verbatim>\<open>set\<close> calls in the order of the source, then the log line.\<close>

definition publish :: "'f runtime \<Rightarrow> 'f result \<Rightarrow> 'f state \<Rightarrow> (exn + unit) \<times> 'f state" where
  "publish rt r =
     (case r of (r_server, r_jitter, r_ping, r_download, r_upload, r_status) \<Rightarrow>
        seq_st (gauge_set (\<lambda>x s. s\<lparr>server := x\<rparr>) rt (PyInt r_server))
       (seq_st (gauge_set (\<lambda>x s. s\<lparr>jitter := x\<rparr>) rt r_jitter)
       (seq_st (gauge_set (\<lambda>x s. s\<lparr>ping := x\<rparr>) rt r_ping)
       (seq_st (gauge_set (\<lambda>x s. s\<lparr>download_speed := x\<rparr>) rt r_download)
       (seq_st (gauge_set (\<lambda>x s. s\<lparr>upload_speed := x\<rparr>) rt r_upload)
       (seq_st (gauge_set (\<lambda>x s. s\<lparr>up := x\<rparr>) rt (PyInt r_status))
               (log_result rt r)))))))"

text \<open>
  \<^verbatim>\<open>datetime.max\<close> in microseconds since \<^verbatim>\<open>datetime.min\<close>. Both the construction of a
  \<^verbatim>\<open>timedelta\<close> that is too long and a sum outside the range of \<^verbatim>\<open>datetime\<close> raise
  OverflowError; the range of \<^verbatim>\<open>timedelta\<close> is the wider one, so that one test of the
  sum covers both.
\<close>

definition datetime_max :: int where
  "datetime_max = 3652059 * 86400 * 1000000 - 1"

definition datetime_add_seconds :: "int \<Rightarrow> int \<Rightarrow> exn + int" where
  "datetime_add_seconds now secs =
     (let t = now + secs * 1000000
      in if 0 \<le> t \<and> t \<le> datetime_max then Inr t else Inl OverflowError)"

definition store_cache :: "config \<Rightarrow> int \<Rightarrow> 'f state \<Rightarrow> (exn + unit) \<times> 'f state" where
  "store_cache cfg now s =
     (case datetime_add_seconds now (cache_seconds cfg) of
        Inl e \<Rightarrow> (Inl e, s)
      | Inr t \<Rightarrow> (Inr (), s\<lparr>cache_until := t\<rparr>))"

text \<open>
  The handler of \<^verbatim>\<open>/metrics\<close>. It reads the clock twice: \<open>now1\<close> in the staleness test
  and, on the stale path only, \<open>now2\<close> when the new \<open>cache_until\<close> is computed. The
  value it returns renders the gauges, so the model returns the state.
\<close>

definition updateResults ::
  "'f runtime \<Rightarrow> config \<Rightarrow> int \<Rightarrow> int \<Rightarrow> probe \<Rightarrow> 'f state \<Rightarrow> (exn + unit) \<times> 'f state" where
  "updateResults rt cfg now1 now2 outcome s =
     (if now1 > cache_until s then
        (case runTest rt cfg outcome s of
           (Inl e, s1) \<Rightarrow> (Inl e, s1)
         | (Inr r, s1) \<Rightarrow> seq_st (publish rt r) (store_cache cfg now2) s1)
      else (Inr (), s))"

text \<open>
  Requests served one after another. A call is the two clock readings and the behaviour
  of the child process; the result lists, for each call, what it returned and the state
  it left.
\<close>

type_synonym call = "int \<times> int \<times> probe"

fun run_calls ::
  "'f runtime \<Rightarrow> config \<Rightarrow> call list \<Rightarrow> 'f state \<Rightarrow> ((exn + unit) \<times> 'f state) list" where
  "run_calls rt cfg [] s = []"
| "run_calls rt cfg ((now1, now2, outcome) # cs) s =
     (let (r, s') = updateResults rt cfg now1 now2 outcome s
      in (r, s') # run_calls rt cfg cs s')"

definition final_state :: "'f state \<Rightarrow> ((exn + unit) \<times> 'f state) list \<Rightarrow> 'f state" where
  "final_state s rs = (if rs = [] then s else snd (last rs))"

subsection \<open>Requests served by several threads\<close>

text \<open>
  The server runs the handler on four threads and the source takes no lock, so that
  the statements of two calls can interleave. A thread is at one of the statements of
  \<open>updateResults\<close>: the staleness test, the call of \<open>runTest\<close>, the gauge updates, the
  assignment to \<open>cache_until\<close>. An event lets one thread execute the statement it is at,
  with the clock reading and the behaviour of the child process at that moment.
\<close>

datatype 'f pc = AtCheck | AtRunTest | AtPublish "'f result" | AtStore | Returned | Raised exn

definition thread_step ::
  "'f runtime \<Rightarrow> config \<Rightarrow> int \<Rightarrow> probe \<Rightarrow> 'f pc \<Rightarrow> 'f state \<Rightarrow> 'f pc \<times> 'f state" where
  "thread_step rt cfg now outcome pc s =
     (case pc of
        AtCheck \<Rightarrow> if now > cache_until s then (AtRunTest, s) else (Returned, s)
      | AtRunTest \<Rightarrow>
          (case runTest rt cfg outcome s of
             (Inl e, s') \<Rightarrow> (Raised e, s')
           | (Inr r, s') \<Rightarrow> (AtPublish r, s'))
      | AtPublish r \<Rightarrow>
          (case publish rt r s of
             (Inl e, s') \<Rightarrow> (Raised e, s')
           | (Inr _, s') \<Rightarrow> (AtStore, s'))
      | AtStore \<Rightarrow>
          (case store_cache cfg now s of
             (Inl e, s') \<Rightarrow> (Raised e, s')
           | (Inr _, s') \<Rightarrow> (Returned, s'))
      | Returned \<Rightarrow> (Returned, s)
      | Raised e \<Rightarrow> (Raised e, s))"

type_synonym event = "nat \<times> int \<times> probe"

fun run_events ::
  "'f runtime \<Rightarrow> config \<Rightarrow> event list \<Rightarrow> 'f pc list \<times> 'f state \<Rightarrow> 'f pc list \<times> 'f state" where
  "run_events rt cfg [] c = c"
| "run_events rt cfg ((i, now, outcome) # evs) (pcs, s) =
     (if i < length pcs
      then (let (pc', s') = thread_step rt cfg now outcome (pcs ! i) s
            in run_events rt cfg evs (pcs[i := pc'], s'))
      else run_events rt cfg evs (pcs, s))"

subsection \<open>The conversions of a result\<close>

text \<open>
  What the field mapping asks of a completed result, stated on the decoded values and on
  the runtime's primitive conversions: the server id becomes an integer (an integer is
  kept, a boolean counts as 0 or 1, a float or a string goes through the runtime's
  conversion), and a bandwidth in bytes per second becomes its product with 8 (an exact
  integer product for an integer, the runtime's float product for a float).
\<close>

inductive int_conversion :: "'f runtime \<Rightarrow> 'f pyval \<Rightarrow> int \<Rightarrow> bool" for rt :: "'f runtime" where
  from_int: "int_conversion rt (PyInt n) n"
| from_bool: "int_conversion rt (PyBool b) (if b then 1 else 0)"
| from_float: "int_of_float rt x = Inr n \<Longrightarrow> int_conversion rt (PyFloat x) n"
| from_str: "int_of_str rt str = Inr n \<Longrightarrow> int_conversion rt (PyStr str) n"

inductive times_eight :: "'f runtime \<Rightarrow> 'f pyval \<Rightarrow> 'f pyval \<Rightarrow> bool" for rt :: "'f runtime" where
  int_rate: "times_eight rt (PyInt d) (PyInt (d * 8))"
| bool_rate: "times_eight rt (PyBool b) (PyInt (if b then 8 else 0))"
| float_rate: "times_eight rt (PyFloat x) (PyFloat (float_mul_int rt x 8))"

subsection \<open>A runtime for concrete runs\<close>

text \<open>
  The concrete runs below use this runtime. It decodes the outputs of a table and rejects
  every other text, converts the strings of a second table to integers and rejects every
  other string, and computes with real numbers in place of floats.
\<close>

definition test_runtime :: "(string \<times> real pyval) list \<Rightarrow> (string \<times> int) list \<Rightarrow> real runtime" where
  "test_runtime decoded ints =
     \<lparr> json_loads = (\<lambda>t. case map_of decoded t of None \<Rightarrow> Inl ValueError | Some v \<Rightarrow> Inr v),
       int_of_str = (\<lambda>t. case map_of ints t of None \<Rightarrow> Inl ValueError | Some n \<Rightarrow> Inr n),
       int_of_float = (\<lambda>x. Inr (if 0 \<le> x then \<lfloor>x\<rfloor> else \<lceil>x\<rceil>)),
       float_of_int = (\<lambda>n. Inr (of_int n)),
       float_of_str = (\<lambda>t. Inl ValueError),
       float_mul_int = (\<lambda>x n. x * of_int n) \<rparr>"

definition test_config :: "int \<Rightarrow> config" where
  "test_config secs = \<lparr> cache_seconds = secs, SPEEDTEST_SERVER = None, SPEEDTEST_TIMEOUT = None \<rparr>"

definition test_state :: "int \<Rightarrow> bool \<Rightarrow> real state" where
  "test_state until flag =
     \<lparr> cache_until = until, server = 0, jitter = 0, ping = 0, download_speed = 0,
       upload_speed = 0, up = 0, shutdown_event = flag, probe_calls = [] \<rparr>"

definition test_cmd :: "string list" where
  "test_cmd = [''speedtest'', ''--format=json-pretty'', ''--progress=no'',
               ''--accept-license'', ''--accept-gdpr'']"

text \<open>
  The payload of a completed test and what it decodes to; the same payload with a server
  id that is not a number, with a jitter that is \<^verbatim>\<open>null\<close>, and with a server id
  given as text and bandwidths given as floats.
\<close>

definition example_output :: string where
  \<open>example_output = ''{"type":"result","server":{"id":12345},"ping":{"jitter":1.5,"latency":10.2},"download":{"bandwidth":12500000},"upload":{"bandwidth":1250000}}''\<close>

definition example_data :: "real pyval" where
  "example_data = PyDict
     [(''type'', PyStr ''result''),
      (''server'', PyDict [(''id'', PyInt 12345)]),
      (''ping'', PyDict [(''jitter'', PyFloat 1.5), (''latency'', PyFloat 10.2)]),
      (''download'', PyDict [(''bandwidth'', PyInt 12500000)]),
      (''upload'', PyDict [(''bandwidth'', PyInt 1250000)])]"

definition bad_id_output :: string where
  \<open>bad_id_output = ''{"type":"result","server":{"id":"abc"},"ping":{"jitter":1.5,"latency":10.2},"download":{"bandwidth":12500000},"upload":{"bandwidth":1250000}}''\<close>

definition bad_id_data :: "real pyval" where
  "bad_id_data = PyDict
     [(''type'', PyStr ''result''),
      (''server'', PyDict [(''id'', PyStr ''abc'')]),
      (''ping'', PyDict [(''jitter'', PyFloat 1.5), (''latency'', PyFloat 10.2)]),
      (''download'', PyDict [(''bandwidth'', PyInt 12500000)]),
      (''upload'', PyDict [(''bandwidth'', PyInt 1250000)])]"

definition null_jitter_output :: string where
  \<open>null_jitter_output = ''{"type":"result","server":{"id":12345},"ping":{"jitter":null,"latency":10.2},"download":{"bandwidth":12500000},"upload":{"bandwidth":1250000}}''\<close>

definition null_jitter_data :: "real pyval" where
  "null_jitter_data = PyDict
     [(''type'', PyStr ''result''),
      (''server'', PyDict [(''id'', PyInt 12345)]),
      (''ping'', PyDict [(''jitter'', PyNone), (''latency'', PyFloat 10.2)]),
      (''download'', PyDict [(''bandwidth'', PyInt 12500000)]),
      (''upload'', PyDict [(''bandwidth'', PyInt 1250000)])]"

definition text_id_output :: string where
  \<open>text_id_output = ''{"type":"result","server":{"id":"12345"},"ping":{"jitter":1.5,"latency":10.2},"download":{"bandwidth":12500000.5},"upload":{"bandwidth":1250000.25}}''\<close>

definition text_id_data :: "real pyval" where
  "text_id_data = PyDict
     [(''type'', PyStr ''result''),
      (''server'', PyDict [(''id'', PyStr ''12345'')]),
      (''ping'', PyDict [(''jitter'', PyFloat 1.5), (''latency'', PyFloat 10.2)]),
      (''download'', PyDict [(''bandwidth'', PyFloat 12500000.5)]),
      (''upload'', PyDict [(''bandwidth'', PyFloat 1250000.25)])]"

text \<open>A state in which an earlier successful test is published.\<close>

definition published_state :: "real state" where
  "published_state =
     \<lparr> cache_until = 0, server = 777, jitter = 2, ping = 20, download_speed = 80000000,
       upload_speed = 8000000, up = 1, shutdown_event = False, probe_calls = [] \<rparr>"

text \<open>
  The clock moves on: every call reads the clock after the instant \<open>t\<close>, reads it again
  no earlier, and the next call starts after that.
\<close>

fun clock_advances :: "int \<Rightarrow> call list \<Rightarrow> bool" where
  "clock_advances t [] = True"
| "clock_advances t ((now1, now2, outcome) # cs) =
     (t < now1 \<and> now1 \<le> now2 \<and> clock_advances now2 cs)"

text \<open>
  Two threads that both run the staleness test before either has started its child
  process. The first thread's test succeeds and the second's times out.
\<close>

definition race_events :: "event list" where
  "race_events =
     [(0, 1000000, TimeoutExpired), (1, 1000001, TimeoutExpired),
      (0, 1000002, Completed example_output), (1, 1000003, TimeoutExpired),
      (0, 31000000, TimeoutExpired), (0, 31000001, TimeoutExpired),
      (1, 31000002, TimeoutExpired), (1, 31000003, TimeoutExpired)]"

section \<open>What each step changes\<close>

lemma runTest_started:
  "\<not> shutdown_event s \<Longrightarrow> probe_timeout rt cfg = Inr t \<Longrightarrow>
     snd (runTest rt cfg outcome s) = s\<lparr>probe_calls := probe_calls s @ [(probe_cmd cfg, t)]\<rparr>"
  by (auto simp: runTest_def Let_def split: sum.splits probe.splits bool.splits)

lemma publish_frame:
  "cache_until (snd (publish rt r s)) = cache_until s \<and>
   shutdown_event (snd (publish rt r s)) = shutdown_event s \<and>
   probe_calls (snd (publish rt r s)) = probe_calls s"
  by (cases r)
     (auto simp: publish_def seq_st_def gauge_set_def log_result_def split: sum.splits prod.splits)

lemma store_cache_frame:
  "shutdown_event (snd (store_cache cfg now s)) = shutdown_event s \<and>
   probe_calls (snd (store_cache cfg now s)) = probe_calls s"
  by (auto simp: store_cache_def split: sum.splits)

lemma publish_sentinel:
  "float_of_int rt 0 = Inr z \<Longrightarrow>
     publish rt sentinel s =
       (Inr (), s\<lparr>server := z, jitter := z, ping := z, download_speed := z,
                  upload_speed := z, up := z\<rparr>)"
  by (simp add: publish_def sentinel_def seq_st_def gauge_set_def log_result_def)

section \<open>Shutdown\<close>

text \<open>
  C9. Once the shutdown flag is set, a call of \<open>runTest\<close> returns the failed sentinel at
  its entry: whatever the configuration, the runtime and the behaviour the child process
  would have had, no child process is started and the state is left as it was.
\<close>

theorem runTest_shutdown:
  "shutdown_event s \<Longrightarrow>
     runTest rt cfg outcome s = (Inr sentinel, s) \<and>
     probe_calls (snd (runTest rt cfg outcome s)) = probe_calls s"
  by (simp add: runTest_def)

theorem runTest_shutdown_witness:
  "shutdown_event (test_state 0 True) \<and>
   runTest (test_runtime [] []) (test_config 0) TimeoutExpired (test_state 0 True)
     = (Inr sentinel, test_state 0 True) \<and>
   probe_calls (snd (runTest (test_runtime [] []) (test_config 0) TimeoutExpired
     (test_state 0 True))) = []"
  using runTest_shutdown [of "test_state 0 True" "test_runtime [] []" "test_config 0" TimeoutExpired]
  by (simp add: test_state_def)

section \<open>Fresh and stale reads\<close>

lemma updateResults_fresh:
  "now1 \<le> cache_until s \<Longrightarrow> updateResults rt cfg now1 now2 outcome s = (Inr (), s)"
  by (simp add: updateResults_def)

lemma runTest_keeps_flag: "shutdown_event (snd (runTest rt cfg outcome s)) = shutdown_event s"
  by (auto simp: runTest_def Let_def split: if_splits sum.splits probe.splits bool.splits)

lemma updateResults_frame:
  "shutdown_event (snd (updateResults rt cfg now1 now2 outcome s)) = shutdown_event s \<and>
   probe_calls (snd (updateResults rt cfg now1 now2 outcome s)) =
     (if cache_until s < now1 then probe_calls (snd (runTest rt cfg outcome s)) else probe_calls s)"
proof (cases "cache_until s < now1")
  case False
  then show ?thesis by (simp add: updateResults_def)
next
  case True
  obtain res s1 where run: "runTest rt cfg outcome s = (res, s1)"
    by (cases "runTest rt cfg outcome s")
  have sh: "shutdown_event s1 = shutdown_event s"
    using run runTest_keeps_flag [of rt cfg outcome s] by simp
  show ?thesis
  proof (cases res)
    case (Inl e)
    with True run sh show ?thesis by (simp add: updateResults_def)
  next
    case (Inr r)
    obtain pr s2 where pb: "publish rt r s1 = (pr, s2)" by (cases "publish rt r s1")
    have f2: "shutdown_event s2 = shutdown_event s1 \<and> probe_calls s2 = probe_calls s1"
      using publish_frame [of rt r s1] pb by simp
    show ?thesis
    proof (cases pr)
      case (Inl e)
      with True run \<open>res = Inr r\<close> pb f2 sh show ?thesis
        by (simp add: updateResults_def seq_st_def)
    next
      case (Inr u)
      with True run \<open>res = Inr r\<close> pb f2 sh store_cache_frame [of cfg now2 s2]
      show ?thesis by (simp add: updateResults_def seq_st_def)
    qed
  qed
qed

text \<open>
  C7. Every call of a sequence whose staleness tests all read a clock that is not after
  \<open>cache_until\<close> returns normally and leaves the whole state as it found it: the six
  gauges and \<open>cache_until\<close> keep their values and no child process is started.
\<close>

theorem fresh_reads_idempotent:
  "\<forall>c \<in> set calls. fst c \<le> cache_until s \<Longrightarrow>
     run_calls rt cfg calls s = map (\<lambda>_. (Inr (), s)) calls \<and>
     final_state s (run_calls rt cfg calls s) = s"
proof (induction calls)
  case Nil
  then show ?case by (simp add: final_state_def)
next
  case (Cons c calls)
  obtain now1 now2 outcome where c: "c = (now1, now2, outcome)" by (cases c)
  from Cons.prems c have "now1 \<le> cache_until s" by simp
  then have u: "updateResults rt cfg now1 now2 outcome s = (Inr (), s)"
    by (rule updateResults_fresh)
  from Cons have rest: "run_calls rt cfg calls s = map (\<lambda>_. (Inr (), s)) calls" by simp
  show ?case using c u rest by (simp add: final_state_def last_map)
qed

theorem fresh_reads_idempotent_witness:
  "run_calls (test_runtime [] []) (test_config 60) [(5, 6, TimeoutExpired), (10, 11, SpawnError)]
       (test_state 10 False)
     = [(Inr (), test_state 10 False), (Inr (), test_state 10 False)] \<and>
   final_state (test_state 10 False)
     (run_calls (test_runtime [] []) (test_config 60) [(5, 6, TimeoutExpired), (10, 11, SpawnError)]
       (test_state 10 False)) = test_state 10 False"
proof -
  have h: "\<forall>c \<in> set [(5, 6, TimeoutExpired), (10, 11 :: int, SpawnError)].
             fst c \<le> cache_until (test_state 10 False)"
    by (simp add: test_state_def)
  show ?thesis
    using h fresh_reads_idempotent [OF h, of "test_runtime [] []" "test_config 60"]
    by (simp del: run_calls.simps add: final_state_def)
qed

text \<open>
  C4, as the claim states it, fails: a read whose clock equals \<open>cache_until\<close> is not
  stale. With \<open>cache_until = 100\<close>, a call that reads the clock at 100 returns at once,
  starts no child process and leaves the state unchanged.
\<close>

theorem read_at_validUntil_counterexample:
  "cache_until (test_state 100 False) = 100 \<and>
   updateResults (test_runtime [] []) (test_config 60) 100 130 TimeoutExpired (test_state 100 False)
     = (Inr (), test_state 100 False) \<and>
   probe_calls (snd (updateResults (test_runtime [] []) (test_config 60) 100 130 TimeoutExpired
     (test_state 100 False))) = []"
  by (simp add: updateResults_def test_state_def)

text \<open>
  C4, amended. A read is fresh exactly when its clock is not after \<open>cache_until\<close>, the
  instant \<open>cache_until\<close> included: it returns and changes nothing. A read is stale exactly
  when its clock is strictly after \<open>cache_until\<close>: unless the shutdown flag is set, it
  starts one child process.
\<close>

theorem staleness_boundary:
  "(now1 \<le> cache_until s \<longrightarrow> updateResults rt cfg now1 now2 outcome s = (Inr (), s)) \<and>
   (cache_until s < now1 \<longrightarrow> \<not> shutdown_event s \<longrightarrow> probe_timeout rt cfg = Inr t \<longrightarrow>
      probe_calls (snd (updateResults rt cfg now1 now2 outcome s))
        = probe_calls s @ [(probe_cmd cfg, t)])"
  using updateResults_frame [of rt cfg now1 now2 outcome s] runTest_started [of s rt cfg t outcome]
  by (simp add: updateResults_fresh)

theorem staleness_boundary_witness:
  "updateResults (test_runtime [] []) (test_config 60) 100 130 TimeoutExpired (test_state 100 False)
     = (Inr (), test_state 100 False) \<and>
   probe_calls (snd (updateResults (test_runtime [] []) (test_config 60) 101 130 TimeoutExpired
     (test_state 100 False))) = [(test_cmd, 90)]"
  using staleness_boundary [of 100 "test_state 100 False" "test_runtime [] []" "test_config 60" 130
          TimeoutExpired 90]
        staleness_boundary [of 101 "test_state 100 False" "test_runtime [] []" "test_config 60" 130
          TimeoutExpired 90]
  by (simp add: test_state_def test_config_def probe_timeout_def probe_cmd_def test_cmd_def)

section \<open>Failures\<close>

text \<open>
  The returns of the all-zero tuple, stated on what the child process did and on what its
  output decodes to: the process timed out or exited with a non-zero status, its output is
  empty or is not decoded, or the decoded object has an \<^verbatim>\<open>error\<close> key or is not of
  type \<^verbatim>\<open>result\<close>.
\<close>

lemma runTest_sentinel_returns:
  assumes "probe_timeout rt cfg = Inr t"
      and "outcome = TimeoutExpired \<or> outcome = CalledProcessError \<or> outcome = Completed [] \<or>
           (\<exists>out. outcome = Completed out \<and>
              (json_loads rt out = Inl ValueError \<or> json_loads rt out = Inl TypeError)) \<or>
           (\<exists>out kvs. outcome = Completed out \<and> json_loads rt out = Inr (PyDict kvs) \<and>
              (map_of kvs ''error'' \<noteq> None \<or> map_of kvs ''type'' \<noteq> Some (PyStr ''result'')))"
  shows "fst (runTest rt cfg outcome s) = Inr sentinel"
proof -
  consider (a) "outcome = TimeoutExpired" | (b) "outcome = CalledProcessError"
    | (c) "outcome = Completed []"
    | (d) out where "outcome = Completed out"
        "json_loads rt out = Inl ValueError \<or> json_loads rt out = Inl TypeError"
    | (e) out kvs where "outcome = Completed out" "json_loads rt out = Inr (PyDict kvs)"
        "map_of kvs ''error'' \<noteq> None \<or> map_of kvs ''type'' \<noteq> Some (PyStr ''result'')"
    using assms(2) by blast
  then show ?thesis
  proof cases
    case a
    with assms(1) show ?thesis by (simp add: runTest_def Let_def)
  next
    case b
    with assms(1) show ?thesis by (simp add: runTest_def Let_def)
  next
    case c
    with assms(1) show ?thesis by (simp add: runTest_def Let_def is_json_def)
  next
    case d
    then have "is_json rt out = Inr False" by (auto simp: is_json_def)
    with d(1) assms(1) show ?thesis by (simp add: runTest_def Let_def)
  next
    case e
    have p: "parse_output rt out = Inr sentinel"
      using e(2,3)
      by (auto simp: parse_output_def parse_body_def bind_exn_def split: option.splits)
    have "is_json rt out = Inr False \<or> is_json rt out = Inr True"
      using e(2) by (simp add: is_json_def)
    then show ?thesis using e(1) assms(1) p by (auto simp: runTest_def Let_def)
  qed
qed

lemma updateResults_sentinel:
  assumes "cache_until s < now1" and "runTest rt cfg outcome s = (Inr sentinel, s1)"
      and "float_of_int rt 0 = Inr z"
  shows "updateResults rt cfg now1 now2 outcome s =
           store_cache cfg now2
             (s1\<lparr>server := z, jitter := z, ping := z, download_speed := z,
                 upload_speed := z, up := z\<rparr>)"
  using assms by (simp add: updateResults_def seq_st_def publish_sentinel)

lemma store_cache_gauges:
  "server (snd (store_cache cfg now s)) = server s \<and>
   jitter (snd (store_cache cfg now s)) = jitter s \<and>
   ping (snd (store_cache cfg now s)) = ping s \<and>
   download_speed (snd (store_cache cfg now s)) = download_speed s \<and>
   upload_speed (snd (store_cache cfg now s)) = upload_speed s \<and>
   up (snd (store_cache cfg now s)) = up s"
  by (auto simp: store_cache_def split: sum.splits)

lemma store_cache_in_range:
  "0 \<le> now + cache_seconds cfg * 1000000 \<Longrightarrow> now + cache_seconds cfg * 1000000 \<le> datetime_max \<Longrightarrow>
     store_cache cfg now s = (Inr (), s\<lparr>cache_until := now + cache_seconds cfg * 1000000\<rparr>)"
  by (simp add: store_cache_def datetime_add_seconds_def Let_def)

text \<open>
  C2. A result whose fields are present but of the wrong type is a failure of the kind
  IncompleteResult, and the claim asks for the all-zero tuple and an \<open>up\<close> gauge of 0.
  The code gives neither. With the server id \<^verbatim>\<open>abc\<close>, \<^verbatim>\<open>int(...)\<close> raises ValueError,
  which the handler does not catch: the stale read raises and the gauges keep the earlier
  successful result, \<open>up\<close> at 1. With a jitter of \<^verbatim>\<open>null\<close>, \<open>runTest\<close> returns a tuple
  with status 1, and the stale read raises TypeError in the second gauge update, after it
  has overwritten the first gauge.
\<close>

theorem mistyped_field_not_sentinel:
  "updateResults (test_runtime [(bad_id_output, bad_id_data)] []) (test_config 60)
       1000000 31000000 (Completed bad_id_output) published_state
     = (Inl ValueError, published_state\<lparr>probe_calls := [(test_cmd, 90)]\<rparr>) \<and>
   up (snd (updateResults (test_runtime [(bad_id_output, bad_id_data)] []) (test_config 60)
       1000000 31000000 (Completed bad_id_output) published_state)) = 1 \<and>
   fst (runTest (test_runtime [(null_jitter_output, null_jitter_data)] []) (test_config 60)
       (Completed null_jitter_output) published_state)
     = Inr (12345, PyNone, PyFloat 10.2, PyInt 100000000, PyInt 10000000, 1) \<and>
   updateResults (test_runtime [(null_jitter_output, null_jitter_data)] []) (test_config 60)
       1000000 31000000 (Completed null_jitter_output) published_state
     = (Inl TypeError, published_state\<lparr>server := 12345, probe_calls := [(test_cmd, 90)]\<rparr>)"
  by (simp add: updateResults_def runTest_def Let_def published_state_def test_config_def
        probe_timeout_def is_json_def test_runtime_def parse_output_def parse_body_def
        result_tuple_def bind_exn_def bad_id_output_def bad_id_data_def null_jitter_output_def
        null_jitter_data_def probe_cmd_def test_cmd_def publish_def seq_st_def gauge_set_def)

text \<open>
  C3. Parsing is not total. A payload of type \<^verbatim>\<open>result\<close> whose server id is the string
  \<^verbatim>\<open>abc\<close> makes \<^verbatim>\<open>int(...)\<close> raise ValueError, and a payload that is a JSON list makes
  \<^verbatim>\<open>data.get\<close> raise AttributeError; the handler catches KeyError and TypeError only,
  so that both exceptions leave \<open>runTest\<close>.
\<close>

theorem runTest_raises_on_bad_payload:
  "fst (runTest (test_runtime [(bad_id_output, bad_id_data)] []) (test_config 0)
         (Completed bad_id_output) (test_state 0 False)) = Inl ValueError \<and>
   fst (runTest (test_runtime [(''[]'', PyList [])] []) (test_config 0)
         (Completed ''[]'') (test_state 0 False)) = Inl AttributeError"
  by (simp add: runTest_def Let_def test_state_def test_config_def probe_timeout_def is_json_def
        test_runtime_def parse_output_def parse_body_def result_tuple_def bind_exn_def
        bad_id_output_def bad_id_data_def)

section \<open>Conversion of a successful result\<close>

lemma int_conversion_py_int: "int_conversion rt v n \<Longrightarrow> py_int rt v = Inr n"
  by (induction rule: int_conversion.induct) simp_all

lemma times_eight_bytes_to_bits: "times_eight rt v w \<Longrightarrow> bytes_to_bits rt v = Inr w"
  by (induction rule: times_eight.induct) simp_all

text \<open>
  C5. For a payload of type \<^verbatim>\<open>result\<close> without an \<^verbatim>\<open>error\<close> key, the server id is
  converted to an integer, jitter and latency are passed on as they are, whatever they
  are, and each bandwidth in bytes per second is multiplied by 8: exactly for an integer,
  by the float product for a float. The instances that follow are the payload of the
  end-to-end scenario, and a payload whose id is text and whose bandwidths are floats.
\<close>

theorem result_conversion:
  assumes "\<not> shutdown_event s" and "probe_timeout rt cfg = Inr t"
      and "out \<noteq> []" and "json_loads rt out = Inr (PyDict kvs)"
      and "map_of kvs ''error'' = None" and "map_of kvs ''type'' = Some (PyStr ''result'')"
      and "map_of kvs ''server'' = Some (PyDict srv)" and "map_of srv ''id'' = Some sid"
      and "int_conversion rt sid n"
      and "map_of kvs ''ping'' = Some (PyDict png)"
      and "map_of png ''jitter'' = Some j" and "map_of png ''latency'' = Some l"
      and "map_of kvs ''download'' = Some (PyDict dl)" and "map_of dl ''bandwidth'' = Some dbw"
      and "times_eight rt dbw r_download"
      and "map_of kvs ''upload'' = Some (PyDict ul)" and "map_of ul ''bandwidth'' = Some ubw"
      and "times_eight rt ubw r_upload"
  shows "fst (runTest rt cfg (Completed out) s) = Inr (n, j, l, r_download, r_upload, 1)"
proof -
  have js: "is_json rt out = Inr True" using assms(3,4) by (simp add: is_json_def)
  have i: "py_int rt sid = Inr n" using assms(9) by (rule int_conversion_py_int)
  have d: "bytes_to_bits rt dbw = Inr r_download"
    using assms(15) by (rule times_eight_bytes_to_bits)
  have u: "bytes_to_bits rt ubw = Inr r_upload"
    using assms(18) by (rule times_eight_bytes_to_bits)
  have tup: "result_tuple rt (PyDict kvs) = Inr (n, j, l, r_download, r_upload, 1)"
    using assms(7,8,10-14,16,17) i d u by (simp add: result_tuple_def bind_exn_def)
  have "parse_body rt out = Inr (n, j, l, r_download, r_upload, 1)"
    using assms(4,5,6) tup by (simp add: parse_body_def bind_exn_def)
  then have "parse_output rt out = Inr (n, j, l, r_download, r_upload, 1)"
    by (simp add: parse_output_def)
  with js assms(1,2) show ?thesis by (simp add: runTest_def Let_def)
qed

theorem result_conversion_witness:
  "fst (runTest (test_runtime [(example_output, example_data)] []) (test_config 0)
         (Completed example_output) (test_state 0 False))
     = Inr (12345, PyFloat 1.5, PyFloat 10.2, PyInt 100000000, PyInt 10000000, 1) \<and>
   fst (runTest (test_runtime [(text_id_output, text_id_data)] [(''12345'', 12345)]) (test_config 0)
         (Completed text_id_output) (test_state 0 False))
     = Inr (12345, PyFloat 1.5, PyFloat 10.2, PyFloat 100000004, PyFloat 10000002, 1)"
proof -
  let ?rt1 = "test_runtime [(example_output, example_data)] []"
  let ?rt2 = "test_runtime [(text_id_output, text_id_data)] [(''12345'', 12345)]"
  have sh: "\<not> shutdown_event (test_state 0 False)" by (simp add: test_state_def)
  have ne1: "example_output \<noteq> []" by (simp add: example_output_def)
  have dec1: "json_loads ?rt1 example_output = Inr (PyDict
     [(''type'', PyStr ''result''),
      (''server'', PyDict [(''id'', PyInt 12345)]),
      (''ping'', PyDict [(''jitter'', PyFloat 1.5), (''latency'', PyFloat 10.2)]),
      (''download'', PyDict [(''bandwidth'', PyInt 12500000)]),
      (''upload'', PyDict [(''bandwidth'', PyInt 1250000)])])"
    by (simp add: test_runtime_def example_data_def)
  have tm1: "probe_timeout ?rt1 (test_config 0) = Inr 90"
    by (simp add: probe_timeout_def test_config_def)
  have first: "fst (runTest ?rt1 (test_config 0) (Completed example_output) (test_state 0 False))
      = Inr (12345, PyFloat 1.5, PyFloat 10.2, PyInt (12500000 * 8), PyInt (1250000 * 8), 1)"
    using result_conversion [OF sh tm1 ne1 dec1,
            where srv = "[(''id'', PyInt 12345)]" and sid = "PyInt 12345" and n = 12345
              and png = "[(''jitter'', PyFloat 1.5), (''latency'', PyFloat 10.2)]"
              and j = "PyFloat 1.5" and l = "PyFloat 10.2"
              and dl = "[(''bandwidth'', PyInt 12500000)]" and dbw = "PyInt 12500000"
              and r_download = "PyInt (12500000 * 8)"
              and ul = "[(''bandwidth'', PyInt 1250000)]" and ubw = "PyInt 1250000"
              and r_upload = "PyInt (1250000 * 8)"]
          int_conversion.from_int [of ?rt1 12345] times_eight.int_rate [of ?rt1 12500000]
          times_eight.int_rate [of ?rt1 1250000]
    by simp
  have ne2: "text_id_output \<noteq> []" by (simp add: text_id_output_def)
  have dec2: "json_loads ?rt2 text_id_output = Inr (PyDict
     [(''type'', PyStr ''result''),
      (''server'', PyDict [(''id'', PyStr ''12345'')]),
      (''ping'', PyDict [(''jitter'', PyFloat 1.5), (''latency'', PyFloat 10.2)]),
      (''download'', PyDict [(''bandwidth'', PyFloat 12500000.5)]),
      (''upload'', PyDict [(''bandwidth'', PyFloat 1250000.25)])])"
    by (simp add: test_runtime_def text_id_data_def)
  have tm2: "probe_timeout ?rt2 (test_config 0) = Inr 90"
    by (simp add: probe_timeout_def test_config_def)
  have conv: "int_conversion ?rt2 (PyStr ''12345'') 12345"
    by (rule int_conversion.from_str) (simp add: test_runtime_def)
  have second: "fst (runTest ?rt2 (test_config 0) (Completed text_id_output) (test_state 0 False))
      = Inr (12345, PyFloat 1.5, PyFloat 10.2, PyFloat (float_mul_int ?rt2 12500000.5 8),
             PyFloat (float_mul_int ?rt2 1250000.25 8), 1)"
    using result_conversion [OF sh tm2 ne2 dec2,
            where srv = "[(''id'', PyStr ''12345'')]" and sid = "PyStr ''12345''" and n = 12345
              and png = "[(''jitter'', PyFloat 1.5), (''latency'', PyFloat 10.2)]"
              and j = "PyFloat 1.5" and l = "PyFloat 10.2"
              and dl = "[(''bandwidth'', PyFloat 12500000.5)]" and dbw = "PyFloat 12500000.5"
              and r_download = "PyFloat (float_mul_int ?rt2 12500000.5 8)"
              and ul = "[(''bandwidth'', PyFloat 1250000.25)]" and ubw = "PyFloat 1250000.25"
              and r_upload = "PyFloat (float_mul_int ?rt2 1250000.25 8)"]
          conv times_eight.float_rate [of ?rt2 "12500000.5"]
          times_eight.float_rate [of ?rt2 "1250000.25"]
    by simp
  have m: "float_mul_int ?rt2 12500000.5 8 = 100000004"
          "float_mul_int ?rt2 1250000.25 8 = 10000002"
    by (simp_all add: test_runtime_def)
  show ?thesis using first second m by simp
qed

section \<open>What a stale read stores\<close>

text \<open>
  C10. A stale read while the shutdown flag is set starts no child process, sets all six
  gauges to \<open>float(0)\<close>, whatever they held, and stores as \<open>cache_until\<close> the clock read
  at that assignment plus the cache duration.
\<close>

theorem shutdown_stale_read:
  assumes "shutdown_event s" and "cache_until s < now1" and "float_of_int rt 0 = Inr z"
      and "0 \<le> now2 + cache_seconds cfg * 1000000"
      and "now2 + cache_seconds cfg * 1000000 \<le> datetime_max"
  shows "updateResults rt cfg now1 now2 outcome s =
           (Inr (), s\<lparr>server := z, jitter := z, ping := z, download_speed := z,
                      upload_speed := z, up := z,
                      cache_until := now2 + cache_seconds cfg * 1000000\<rparr>) \<and>
         probe_calls (snd (updateResults rt cfg now1 now2 outcome s)) = probe_calls s"
proof -
  have run: "runTest rt cfg outcome s = (Inr sentinel, s)"
    using assms(1) by (simp add: runTest_def)
  show ?thesis
    using updateResults_sentinel [OF assms(2) run assms(3), of now2]
    by (simp add: store_cache_in_range [OF assms(4,5)])
qed

theorem shutdown_stale_read_witness:
  "updateResults (test_runtime [] []) (test_config 60) 1000000 1000000 TimeoutExpired
       ((test_state 0 True)\<lparr>server := 12345, download_speed := 100000000, up := 1\<rparr>)
     = (Inr (), test_state 61000000 True)"
proof -
  let ?s = "(test_state 0 True)\<lparr>server := 12345, download_speed := 100000000, up := 1\<rparr>"
  have a: "shutdown_event ?s" by (simp add: test_state_def)
  have b: "cache_until ?s < 1000000" by (simp add: test_state_def)
  have z: "float_of_int (test_runtime [] []) 0 = Inr 0" by (simp add: test_runtime_def)
  have c: "0 \<le> 1000000 + cache_seconds (test_config 60) * 1000000" by (simp add: test_config_def)
  have d: "1000000 + cache_seconds (test_config 60) * 1000000 \<le> datetime_max"
    by (simp add: test_config_def datetime_max_def)
  show ?thesis using shutdown_stale_read [OF a b z c d, of TimeoutExpired]
    by (simp add: test_state_def test_config_def)
qed




section \<open>A cache duration of zero\<close>

lemma clock_advances_mono: "clock_advances t cs \<Longrightarrow> t' \<le> t \<Longrightarrow> clock_advances t' cs"
  by (cases cs) auto

lemma runTest_cache_until: "cache_until (snd (runTest rt cfg outcome s)) = cache_until s"
  by (auto simp: runTest_def Let_def split: if_splits sum.splits probe.splits bool.splits)

lemma store_cache_zero:
  "cache_seconds cfg = 0 \<Longrightarrow>
     cache_until (snd (store_cache cfg now s)) = cache_until s \<or>
     cache_until (snd (store_cache cfg now s)) = now"
  by (auto simp: store_cache_def datetime_add_seconds_def Let_def split: sum.splits)

lemma updateResults_zero_duration:
  assumes "cache_seconds cfg = 0" and "cache_until s < now1" and "now1 \<le> now2"
  shows "cache_until (snd (updateResults rt cfg now1 now2 outcome s)) \<le> now2"
proof -
  obtain res s1 where run: "runTest rt cfg outcome s = (res, s1)"
    by (cases "runTest rt cfg outcome s")
  have c1: "cache_until s1 = cache_until s"
    using run runTest_cache_until [of rt cfg outcome s] by simp
  show ?thesis
  proof (cases res)
    case (Inl e)
    with assms run c1 show ?thesis by (simp add: updateResults_def)
  next
    case (Inr r)
    obtain pr s2 where pb: "publish rt r s1 = (pr, s2)" by (cases "publish rt r s1")
    have c2: "cache_until s2 = cache_until s1" using publish_frame [of rt r s1] pb by simp
    show ?thesis
    proof (cases pr)
      case (Inl e)
      with assms run \<open>res = Inr r\<close> pb c1 c2 show ?thesis
        by (simp add: updateResults_def seq_st_def)
    next
      case (Inr u)
      with assms run \<open>res = Inr r\<close> pb c1 c2 store_cache_zero [OF assms(1), of now2 s2]
      show ?thesis by (auto simp: updateResults_def seq_st_def)
    qed
  qed
qed

lemma final_state_Cons: "final_state s (x # xs) = final_state (snd x) xs"
  by (simp add: final_state_def)

text \<open>
  C6. With a cache duration of zero, every call of a sequence during which the clock
  moves on is stale and starts a child process: the calls of the child process are as many
  as the calls of the handler.
\<close>

theorem zero_duration_never_caches:
  assumes "cache_seconds cfg = 0" and "\<not> shutdown_event s" and "probe_timeout rt cfg = Inr t"
      and "clock_advances (cache_until s) calls"
  shows "probe_calls (final_state s (run_calls rt cfg calls s))
           = probe_calls s @ replicate (length calls) (probe_cmd cfg, t)"
  using assms(2,4)
proof (induction calls arbitrary: s)
  case Nil
  then show ?case by (simp add: final_state_def)
next
  case (Cons c calls)
  obtain now1 now2 outcome where c: "c = (now1, now2, outcome)" by (cases c)
  let ?s' = "snd (updateResults rt cfg now1 now2 outcome s)"
  from Cons.prems c have stale: "cache_until s < now1" and le: "now1 \<le> now2"
    and adv: "clock_advances now2 calls" by simp_all
  have flag: "\<not> shutdown_event ?s'"
    using updateResults_frame [of rt cfg now1 now2 outcome s] Cons.prems(1) by simp
  have pc: "probe_calls ?s' = probe_calls s @ [(probe_cmd cfg, t)]"
    using updateResults_frame [of rt cfg now1 now2 outcome s] stale
          runTest_started [OF Cons.prems(1) assms(3), of outcome] by simp
  have "cache_until ?s' \<le> now2"
    using assms(1) stale le by (rule updateResults_zero_duration)
  with adv have "clock_advances (cache_until ?s') calls" by (rule clock_advances_mono)
  with flag have "probe_calls (final_state ?s' (run_calls rt cfg calls ?s'))
      = probe_calls ?s' @ replicate (length calls) (probe_cmd cfg, t)"
    by (rule Cons.IH)
  then show ?case
    using c pc by (simp add: final_state_Cons split_beta Let_def replicate_append_same)
qed

theorem zero_duration_never_caches_witness:
  "clock_advances (cache_until (test_state 0 False))
     [(1000000, 31000000, TimeoutExpired), (31000001, 61000000, TimeoutExpired)] \<and>
   probe_calls (final_state (test_state 0 False)
     (run_calls (test_runtime [] []) (test_config 0)
        [(1000000, 31000000, TimeoutExpired), (31000001, 61000000, TimeoutExpired)]
        (test_state 0 False)))
     = [(test_cmd, 90), (test_cmd, 90)]"
proof -
  have a: "cache_seconds (test_config 0) = 0" by (simp add: test_config_def)
  have b: "\<not> shutdown_event (test_state 0 False)" by (simp add: test_state_def)
  have c: "probe_timeout (test_runtime [] []) (test_config 0) = Inr 90"
    by (simp add: probe_timeout_def test_config_def)
  have d: "clock_advances (cache_until (test_state 0 False))
     [(1000000, 31000000, TimeoutExpired), (31000001, 61000000, TimeoutExpired)]"
    by (simp add: test_state_def)
  have e: "probe_calls (test_state 0 False) = []" by (simp add: test_state_def)
  have f: "probe_cmd (test_config 0) = test_cmd"
    by (simp add: probe_cmd_def test_config_def test_cmd_def)
  show ?thesis
    using d zero_duration_never_caches [OF a b c d] e f
    by (simp del: run_calls.simps add: numeral_2_eq_2)
qed

section \<open>Overlapping calls\<close>

text \<open>
  A single thread that runs its four statements without interruption does what
  \<open>updateResults\<close> does.
\<close>

lemma thread_serial:
  "run_events rt cfg [(0, now1, o1), (0, n2, outcome), (0, n3, o3), (0, now2, o4)] ([AtCheck], s)
     = (case updateResults rt cfg now1 now2 outcome s of
          (Inl e, s') \<Rightarrow> ([Raised e], s')
        | (Inr _, s') \<Rightarrow> ([Returned], s'))"
proof (cases "cache_until s < now1")
  case False
  then show ?thesis by (simp add: thread_step_def updateResults_def)
next
  case True
  obtain res s1 where run: "runTest rt cfg outcome s = (res, s1)"
    by (cases "runTest rt cfg outcome s")
  show ?thesis
  proof (cases res)
    case (Inl e)
    with True run show ?thesis by (simp add: thread_step_def updateResults_def)
  next
    case (Inr r)
    obtain pr s2 where pb: "publish rt r s1 = (pr, s2)" by (cases "publish rt r s1")
    show ?thesis
    proof (cases pr)
      case (Inl e)
      with True run \<open>res = Inr r\<close> pb show ?thesis
        by (simp add: thread_step_def updateResults_def seq_st_def)
    next
      case (Inr u)
      obtain sr s3 where st: "store_cache cfg now2 s2 = (sr, s3)"
        by (cases "store_cache cfg now2 s2")
      show ?thesis
      proof (cases sr)
        case (Inl e)
        with True run \<open>res = Inr r\<close> pb \<open>pr = Inr u\<close> st show ?thesis
          by (simp add: thread_step_def updateResults_def seq_st_def)
      next
        case (Inr v)
        with True run \<open>res = Inr r\<close> pb \<open>pr = Inr u\<close> st show ?thesis
          by (simp add: thread_step_def updateResults_def seq_st_def)
      qed
    qed
  qed
qed

text \<open>
  C1, as the claim states it, fails: the staleness test, the measurement and the assignment
  to \<open>cache_until\<close> are not atomic. Two threads that both pass the staleness test before
  either assigns \<open>cache_until\<close> both start a child process, and the gauges show the first
  result when the first thread returns and the second result afterwards.
\<close>

theorem concurrent_stale_reads_counterexample:
  "cache_until (test_state 0 False) < 1000000 \<and> cache_until (test_state 0 False) < 1000001 \<and>
   fst (run_events (test_runtime [(example_output, example_data)] []) (test_config 60)
          race_events ([AtCheck, AtCheck], test_state 0 False)) = [Returned, Returned] \<and>
   probe_calls (snd (run_events (test_runtime [(example_output, example_data)] []) (test_config 60)
          race_events ([AtCheck, AtCheck], test_state 0 False)))
     = [(test_cmd, 90), (test_cmd, 90)] \<and>
   up (snd (run_events (test_runtime [(example_output, example_data)] []) (test_config 60)
          (take 6 race_events) ([AtCheck, AtCheck], test_state 0 False))) = 1 \<and>
   up (snd (run_events (test_runtime [(example_output, example_data)] []) (test_config 60)
          race_events ([AtCheck, AtCheck], test_state 0 False))) = 0"
  by (simp add: race_events_def thread_step_def runTest_def Let_def test_state_def test_config_def
        probe_timeout_def is_json_def test_runtime_def parse_output_def parse_body_def
        result_tuple_def bind_exn_def example_output_def example_data_def probe_cmd_def
        test_cmd_def publish_def sentinel_def seq_st_def gauge_set_def log_result_def
        store_cache_def datetime_add_seconds_def datetime_max_def)

text \<open>
  C1, amended. When the calls are served one after another, the first of them stale and
  returning normally, and the later ones reading a clock that is not after the
  \<open>cache_until\<close> the first has stored, exactly one child process is started and every
  call leaves the same state, hence the same gauges.
\<close>

theorem serial_stale_reads_one_probe:
  assumes "cache_until s < now1" and "\<not> shutdown_event s" and "probe_timeout rt cfg = Inr t"
      and "updateResults rt cfg now1 now2 outcome s = (Inr (), s1)"
      and "\<forall>c \<in> set calls. fst c \<le> cache_until s1"
  shows "run_calls rt cfg ((now1, now2, outcome) # calls) s
           = (Inr (), s1) # map (\<lambda>_. (Inr (), s1)) calls \<and>
         probe_calls s1 = probe_calls s @ [(probe_cmd cfg, t)]"
proof -
  have rest: "run_calls rt cfg calls s1 = map (\<lambda>_. (Inr (), s1)) calls"
    using assms(5)
  proof (induction calls)
    case Nil
    then show ?case by simp
  next
    case (Cons c calls)
    obtain a b p where c: "c = (a, b, p)" by (cases c)
    with Cons.prems have "a \<le> cache_until s1" by simp
    then have "updateResults rt cfg a b p s1 = (Inr (), s1)" by (rule updateResults_fresh)
    with Cons c show ?case by simp
  qed
  have "probe_calls s1 = probe_calls s @ [(probe_cmd cfg, t)]"
    using updateResults_frame [of rt cfg now1 now2 outcome s] assms(1,4)
          runTest_started [OF assms(2,3), of outcome] by simp
  with rest assms(4) show ?thesis by simp
qed

theorem serial_stale_reads_one_probe_witness:
  "run_calls (test_runtime [] []) (test_config 60)
      [(1000000, 31000000, TimeoutExpired), (40000000, 70000000, SpawnError),
       (91000000, 99000000, SpawnError)] (test_state 0 False)
     = [(Inr (), (test_state 91000000 False)\<lparr>probe_calls := [(test_cmd, 90)]\<rparr>),
        (Inr (), (test_state 91000000 False)\<lparr>probe_calls := [(test_cmd, 90)]\<rparr>),
        (Inr (), (test_state 91000000 False)\<lparr>probe_calls := [(test_cmd, 90)]\<rparr>)]"
proof -
  let ?rt = "test_runtime [] [] :: real runtime"
  let ?s1 = "(test_state 91000000 False)\<lparr>probe_calls := [(test_cmd, 90)]\<rparr>"
  have a: "cache_until (test_state 0 False) < 1000000" by (simp add: test_state_def)
  have b: "\<not> shutdown_event (test_state 0 False)" by (simp add: test_state_def)
  have c: "probe_timeout ?rt (test_config 60) = Inr 90"
    by (simp add: probe_timeout_def test_config_def)
  have d: "updateResults ?rt (test_config 60) 1000000 31000000 TimeoutExpired (test_state 0 False)
      = (Inr (), ?s1)"
    by (simp add: updateResults_def runTest_def Let_def test_state_def test_config_def
          probe_timeout_def test_runtime_def publish_def sentinel_def seq_st_def gauge_set_def
          log_result_def store_cache_def datetime_add_seconds_def datetime_max_def
          probe_cmd_def test_cmd_def)
  have e: "\<forall>c \<in> set [(40000000, 70000000 :: int, SpawnError), (91000000, 99000000, SpawnError)].
             fst c \<le> cache_until ?s1"
    by (simp add: test_state_def)
  show ?thesis
    using serial_stale_reads_one_probe [OF a b c d e]
    by (simp del: run_calls.simps)
qed

end
